theory Spec2Isabelle
  imports Main
begin

section \<open>JavaScript values\<close>

text \<open>
  The dashboard service (\<^verbatim>\<open>dashboardAPI.js\<close>) moves JSON payloads around: it spreads
  them, reads a few properties, tests them for truthiness and attaches properties. The
  payloads are modelled as JSON values with JavaScript's \<^verbatim>\<open>undefined\<close> added. An
  object is the list of its properties in insertion order, each name once. Numbers are
  the integers that a JavaScript number holds exactly and prints in plain decimal (below
  \<^verbatim>\<open>1e21\<close> in magnitude): the service never computes with a payload number, it
  only tests it for truthiness and prints it.
\<close>

datatype jsval =
    JUndefined
  | JNull
  | JBool bool
  | JNum int
  | JStr string
  | JArr "jsval list"
  | JObj "(string \<times> jsval) list"

text \<open>\<^verbatim>\<open>if (v)\<close>: the falsy values are undefined, null, false, 0 and the empty string.\<close>

fun truthy :: "jsval \<Rightarrow> bool" where
  "truthy JUndefined = False"
| "truthy JNull = False"
| "truthy (JBool b) = b"
| "truthy (JNum n) = (n \<noteq> 0)"
| "truthy (JStr s) = (s \<noteq> [])"
| "truthy (JArr xs) = True"
| "truthy (JObj ps) = True"

text \<open>
  \<^verbatim>\<open>v.k\<close> for the property names the service reads (none of them is an index or
  \<^verbatim>\<open>length\<close>): an object gives the property or undefined, every other value that is
  not null or undefined gives undefined. Reading a property of null or undefined throws;
  the callers below test for that case before they use \<open>get_prop\<close>.
\<close>

fun get_prop :: "string \<Rightarrow> jsval \<Rightarrow> jsval" where
  "get_prop k (JObj ps) = (case map_of ps k of Some v \<Rightarrow> v | None \<Rightarrow> JUndefined)"
| "get_prop k v = JUndefined"

text \<open>\<^verbatim>\<open>o.k = v\<close> on the property list of an object: replaces in place, or appends.\<close>

fun set_prop :: "string \<Rightarrow> 'a \<Rightarrow> (string \<times> 'a) list \<Rightarrow> (string \<times> 'a) list" where
  "set_prop k v [] = [(k, v)]"
| "set_prop k v (p # ps) = (if fst p = k then (k, v) # ps else p # set_prop k v ps)"

fun digit_char :: "nat \<Rightarrow> char" where
  "digit_char n = char_of (48 + n)"

fun show_nat :: "nat \<Rightarrow> string" where
  "show_nat n = (if n < 10 then [digit_char n] else show_nat (n div 10) @ [digit_char (n mod 10)])"

declare show_nat.simps [simp del]

definition show_int :: "int \<Rightarrow> string" where
  "show_int i = (if i < 0 then CHR ''-'' # show_nat (nat (- i)) else show_nat (nat i))"

fun join_with :: "string \<Rightarrow> string list \<Rightarrow> string" where
  "join_with sep [] = []"
| "join_with sep [s] = s"
| "join_with sep (s # t # ss) = s @ sep @ join_with sep (t # ss)"

text \<open>
  \<^verbatim>\<open>String(v)\<close>, which \<^verbatim>\<open>new Error(v)\<close> applies to its argument: an array joins its
  elements with commas, null and undefined elements printing as nothing; a plain object
  prints as \<^verbatim>\<open>[object Object]\<close>.
\<close>

fun to_string :: "jsval \<Rightarrow> string" where
  "to_string JUndefined = ''undefined''"
| "to_string JNull = ''null''"
| "to_string (JBool b) = (if b then ''true'' else ''false'')"
| "to_string (JNum n) = show_int n"
| "to_string (JStr s) = s"
| "to_string (JArr xs) =
     join_with '','' (map (\<lambda>x. if x = JUndefined \<or> x = JNull then [] else to_string x) xs)"
| "to_string (JObj ps) = ''[object Object]''"

text \<open>
  \<^verbatim>\<open>{ ...v }\<close>: the own enumerable properties of \<open>v\<close>. An object gives its properties, an
  array and a string give their elements under their indices, every other value gives
  none.
\<close>

fun spread :: "jsval \<Rightarrow> (string \<times> jsval) list" where
  "spread (JObj ps) = ps"
| "spread (JArr xs) = zip (map show_nat [0 ..< length xs]) xs"
| "spread (JStr s) = zip (map show_nat [0 ..< length s]) (map (\<lambda>c. JStr [c]) s)"
| "spread v = []"

text \<open>\<^verbatim>\<open>s.includes(sub)\<close>.\<close>

fun starts_with :: "string \<Rightarrow> string \<Rightarrow> bool" where
  "starts_with s [] = True"
| "starts_with [] (c # cs) = False"
| "starts_with (d # ds) (c # cs) = (d = c \<and> starts_with ds cs)"

fun str_includes :: "string \<Rightarrow> string \<Rightarrow> bool" where
  "str_includes [] sub = (sub = [])"
| "str_includes (c # cs) sub = (starts_with (c # cs) sub \<or> str_includes cs sub)"

text \<open>A thrown \<^verbatim>\<open>Error\<close>: its \<^verbatim>\<open>name\<close> and its \<^verbatim>\<open>message\<close>.\<close>

datatype js_error = JsError (err_name: string) (err_message: string)


section \<open>The service and its environment\<close>

text \<open>
  \<^verbatim>\<open>localStorage.getItem(k)\<close> gives a string or null. The service object has one field
  that matters here, \<^verbatim>\<open>this.token\<close>, null after the constructor.
\<close>

type_synonym storage = "string \<Rightarrow> string option"

record DashboardAPI =
  token :: "string option"

definition new_DashboardAPI :: DashboardAPI where
  "new_DashboardAPI = \<lparr>token = None\<rparr>"

definition setToken :: "string option \<Rightarrow> DashboardAPI \<Rightarrow> DashboardAPI" where
  "setToken t api = api\<lparr>token := t\<rparr>"

text \<open>\<^verbatim>\<open>if (t)\<close> for a value that is null or a string.\<close>

fun token_set :: "string option \<Rightarrow> bool" where
  "token_set None = False"
| "token_set (Some t) = (t \<noteq> [])"

text \<open>\<^verbatim>\<open>const t = localStorage.getItem(k); if (t) { this.token = t; }\<close>\<close>

definition adopt :: "string option \<Rightarrow> DashboardAPI \<Rightarrow> DashboardAPI" where
  "adopt item api = (if token_set item then api\<lparr>token := item\<rparr> else api)"

text \<open>
  The first block of \<^verbatim>\<open>fetchWithAuth\<close>: nothing is read from storage when the token
  field is set; otherwise the three priorities run in order and the call throws when the
  field is still empty after them.
\<close>

definition resolve_token :: "string \<Rightarrow> storage \<Rightarrow> DashboardAPI \<Rightarrow> js_error + DashboardAPI" where
  "resolve_token url ls api =
     (if token_set (token api) then Inr api
      else
        let a1 = (if str_includes url ''/admin/'' then adopt (ls ''adminToken'') api else api);
            a2 = (if \<not> token_set (token a1) then adopt (ls ''session_token'') a1 else a1);
            a3 = (if \<not> token_set (token a2) then adopt (ls ''adminToken'') a2 else a2)
        in if \<not> token_set (token a3)
           then Inl (JsError ''Error'' ''No authentication token available'')
           else Inr a3)"

text \<open>The \<^verbatim>\<open>options\<close> argument and the request handed to \<^verbatim>\<open>fetch\<close>.\<close>

record options =
  opt_method :: "string option"
  opt_headers :: "(string \<times> string) list"
  opt_body :: "string option"

definition no_options :: options where
  "no_options = \<lparr>opt_method = None, opt_headers = [], opt_body = None\<rparr>"

definition post_options :: options where
  "post_options = \<lparr>opt_method = Some ''POST'', opt_headers = [], opt_body = None\<rparr>"

record request =
  req_url :: string
  req_method :: "string option"
  req_headers :: "(string \<times> string) list"
  req_body :: "string option"

text \<open>
  \<^verbatim>\<open>{ 'Content-Type': 'application/json', ...options.headers }\<close>, then the
  \<^verbatim>\<open>Authorization\<close> header is set from the token field, which is set at this point.
\<close>

definition build_headers :: "options \<Rightarrow> DashboardAPI \<Rightarrow> (string \<times> string) list" where
  "build_headers opts api =
     (let hs = fold (\<lambda>(k, v). set_prop k v) (opt_headers opts)
                 [(''Content-Type'', ''application/json'')]
      in case token api of
           None \<Rightarrow> hs
         | Some t \<Rightarrow> if t = [] then hs else set_prop ''Authorization'' (''Bearer '' @ t) hs)"

definition build_request :: "string \<Rightarrow> options \<Rightarrow> DashboardAPI \<Rightarrow> request" where
  "build_request url opts api =
     \<lparr>req_url = url, req_method = opt_method opts,
      req_headers = build_headers opts api, req_body = opt_body opts\<rparr>"

text \<open>
  What \<^verbatim>\<open>fetch\<close> does with a request: it rejects (a \<^verbatim>\<open>TypeError\<close> when the transport
  fails), or it resolves with a status and a body, and \<^verbatim>\<open>response.json()\<close> on that body
  either rejects or gives a value.
\<close>

datatype response =
    FetchRejected js_error
  | Response nat "js_error + jsval"

definition response_ok :: "nat \<Rightarrow> bool" where
  "response_ok status = (200 \<le> status \<and> status \<le> 299)"

record env =
  localStorage :: storage
  network :: "request \<Rightarrow> response"
  now :: nat

text \<open>The DOM events the service dispatches on \<^verbatim>\<open>window\<close>.\<close>

datatype event =
    NetworkError
  | DashboardRefreshed nat nat
  | ServerEventsRefreshed jsval

fun event_name :: "event \<Rightarrow> string" where
  "event_name NetworkError = ''network:error''"
| "event_name (DashboardRefreshed lastUpdate cacheAge) = ''dashboard:refreshed''"
| "event_name (ServerEventsRefreshed detail) = ''server-events:refreshed''"

text \<open>What a call does besides returning: requests, events, console output, cache writes.\<close>

datatype effect =
    Fetch request
  | Dispatch event
  | Console string string
  | CacheSave jsval

text \<open>The \<^verbatim>\<open>catch\<close> block of \<^verbatim>\<open>fetchWithAuth\<close>.\<close>

definition fetch_catch :: "js_error \<Rightarrow> event list \<times> (js_error + jsval)" where
  "fetch_catch err =
     (if err_name err = ''TypeError'' \<and> str_includes (err_message err) ''fetch''
      then ([NetworkError],
            Inl (JsError ''Error''
                   ''Network connection failed. Please check your internet connection.''))
      else ([], Inl err))"

text \<open>
  \<^verbatim>\<open>errorData.detail\<close> throws a \<^verbatim>\<open>TypeError\<close> when the error body is the JSON value
  null; the message is V8's.
\<close>

definition null_detail_error :: js_error where
  "null_detail_error =
     JsError ''TypeError''
       (''Cannot read properties of null (reading '' @ [CHR 0x27] @ ''detail''
          @ [CHR 0x27] @ '')'')"

text \<open>
  The \<^verbatim>\<open>try\<close> block of \<^verbatim>\<open>fetchWithAuth\<close> from the settled \<^verbatim>\<open>fetch\<close> on. A
  rejection of the final \<^verbatim>\<open>return response.json()\<close> is not awaited inside the
  \<^verbatim>\<open>try\<close>, so it reaches the caller without passing the \<^verbatim>\<open>catch\<close> block.
\<close>

definition settle :: "response \<Rightarrow> event list \<times> (js_error + jsval)" where
  "settle r =
     (case r of
        FetchRejected err \<Rightarrow> fetch_catch err
      | Response status body \<Rightarrow>
          if \<not> response_ok status then
            (let errorData = (case body of Inl _ \<Rightarrow> JObj [] | Inr d \<Rightarrow> d) in
             if errorData = JNull \<or> errorData = JUndefined then fetch_catch null_detail_error
             else
               let detail = get_prop ''detail'' errorData in
               fetch_catch (JsError ''Error''
                 (to_string (if truthy detail then detail
                             else JStr (''HTTP error! status: '' @ show_nat status)))))
          else (case body of Inl err \<Rightarrow> ([], Inl err) | Inr d \<Rightarrow> ([], Inr d)))"

definition fetchWithAuth ::
  "string \<Rightarrow> options \<Rightarrow> env \<Rightarrow> DashboardAPI \<Rightarrow> DashboardAPI \<times> effect list \<times> (js_error + jsval)" where
  "fetchWithAuth url opts e api =
     (case resolve_token url (localStorage e) api of
        Inl err \<Rightarrow> (api, [], Inl err)
      | Inr api' \<Rightarrow>
          (case settle (network e (build_request url opts api')) of
             (evs, res) \<Rightarrow> (api', Fetch (build_request url opts api') # map Dispatch evs, res)))"


section \<open>The cache service\<close>

text \<open>
  \<^verbatim>\<open>dashboardAPI.js\<close> imports \<^verbatim>\<open>cacheService\<close> from \<^verbatim>\<open>./cache\<close>, a module that is not
  among the sources. Its five operations are therefore parameters of the model: the
  cache state is a type variable, every operation may read the clock, and nothing is
  assumed about what they compute, except that they return. \<open>cache_getDashboardData\<close>
  is \<^verbatim>\<open>cacheService.getDashboardData()\<close>, null when there is no entry.
\<close>

record 'c cacheService =
  isCacheValid :: "nat \<Rightarrow> 'c \<Rightarrow> bool"
  cache_getDashboardData :: "nat \<Rightarrow> 'c \<Rightarrow> jsval"
  shouldTriggerBackgroundRefresh :: "nat \<Rightarrow> 'c \<Rightarrow> bool"
  hasDataChanged :: "jsval \<Rightarrow> jsval \<Rightarrow> bool"
  saveDashboardData :: "nat \<Rightarrow> jsval \<Rightarrow> 'c \<Rightarrow> 'c"

text \<open>The state after a call of the service, what the call did, and what it returned.\<close>

record 'c outcome =
  api_after :: DashboardAPI
  cache_after :: 'c
  effects :: "effect list"
  result :: "js_error + jsval"

section \<open>Refreshing the dashboard\<close>

fun is_fetch :: "effect \<Rightarrow> bool" where
  "is_fetch (Fetch r) = True"
| "is_fetch x = False"

text \<open>
  \<^verbatim>\<open>Promise.all([fetchWithAuth('/dashboard/data'),
  fetchWithAuth('/portfolio/due-dates-data').catch(err => null)])\<close>: both calls start
  before either settles, so both requests come first in the effects; the model lets the
  primary settle first. A failure of the secondary becomes null; a failure of the primary
  rejects the whole.
\<close>

definition fetch_both :: "env \<Rightarrow> DashboardAPI \<Rightarrow> DashboardAPI \<times> effect list \<times> (js_error + jsval \<times> jsval)" where
  "fetch_both e api =
     (case fetchWithAuth ''/dashboard/data'' no_options e api of
        (api1, fx1, r1) \<Rightarrow>
          (case fetchWithAuth ''/portfolio/due-dates-data'' no_options e api1 of
             (api2, fx2, r2) \<Rightarrow>
               (api2,
                filter is_fetch (fx1 @ fx2) @ filter (\<lambda>x. \<not> is_fetch x) (fx1 @ fx2),
                (case r1 of
                   Inl err \<Rightarrow> Inl err
                 | Inr dashboardData \<Rightarrow>
                     Inr (dashboardData, (case r2 of Inl _ \<Rightarrow> JNull | Inr d \<Rightarrow> d))))))"

text \<open>
  \<^verbatim>\<open>const combinedData = { ...dashboardData };
  if (combinedData.success && dueDatesData) combinedData.due_dates = dueDatesData;\<close>
\<close>

definition combine :: "jsval \<Rightarrow> jsval \<Rightarrow> (string \<times> jsval) list" where
  "combine dashboardData dueDatesData =
     (let combinedData = spread dashboardData in
      if truthy (get_prop ''success'' (JObj combinedData)) \<and> truthy dueDatesData
      then set_prop ''due_dates'' dueDatesData combinedData
      else combinedData)"

definition empty_events :: jsval where
  "empty_events = JObj [(''events'', JArr []), (''count'', JNum 0)]"

text \<open>\<^verbatim>\<open>a || b\<close>\<close>

definition or_else :: "jsval \<Rightarrow> jsval \<Rightarrow> jsval" where
  "or_else a b = (if truthy a then a else b)"

text \<open>
  \<^verbatim>\<open>_fetchServerEvents\<close> never throws: a failed request, and a null response (whose
  \<^verbatim>\<open>success\<close> cannot be read), end in its \<^verbatim>\<open>catch\<close> block. The object it returns
  has the two properties \<^verbatim>\<open>events\<close> and \<^verbatim>\<open>count\<close>.
\<close>

definition fetchServerEvents :: "env \<Rightarrow> DashboardAPI \<Rightarrow> DashboardAPI \<times> effect list \<times> jsval" where
  "fetchServerEvents e api =
     (case fetchWithAuth ''/admin/server-events?include_inactive=false'' no_options e api of
        (api1, fx, Inl err) \<Rightarrow>
          (api1, fx @ [Console ''error'' ''Failed to fetch server events:''], empty_events)
      | (api1, fx, Inr response) \<Rightarrow>
          if response = JNull \<or> response = JUndefined
          then (api1, fx @ [Console ''error'' ''Failed to fetch server events:''], empty_events)
          else if truthy (get_prop ''success'' response)
          then (api1, fx,
                JObj [(''events'', or_else (get_prop ''events'' response) (JArr [])),
                      (''count'', or_else (get_prop ''count'' response) (JNum 0))])
          else (api1, fx @ [Console ''warn'' ''Server events fetch failed:''], empty_events))"

text \<open>
  \<^verbatim>\<open>await this.fetchWithAuth('/admin/clear-server-events-flag', { method: 'POST' })
  .catch(err => console.warn('Failed to clear events flag:', err))\<close>
\<close>

definition clear_flag :: "env \<Rightarrow> DashboardAPI \<Rightarrow> DashboardAPI \<times> effect list" where
  "clear_flag e api =
     (case fetchWithAuth ''/admin/clear-server-events-flag'' post_options e api of
        (api1, fx, Inl err) \<Rightarrow> (api1, fx @ [Console ''warn'' ''Failed to clear events flag:''])
      | (api1, fx, Inr v) \<Rightarrow> (api1, fx))"

text \<open>
  The server-events block of \<^verbatim>\<open>getDashboardData\<close>. Neither call inside its \<^verbatim>\<open>try\<close>
  can throw, so its \<^verbatim>\<open>catch\<close> has no branch here.
\<close>

definition refresh_events ::
  "env \<Rightarrow> DashboardAPI \<Rightarrow> (string \<times> jsval) list \<Rightarrow> DashboardAPI \<times> effect list \<times> (string \<times> jsval) list" where
  "refresh_events e api combinedData =
     (if truthy (get_prop ''success'' (JObj combinedData))
         \<and> get_prop ''server_events_update_flag'' (JObj combinedData) = JStr ''true''
      then
        (case fetchServerEvents e api of
           (api1, fx1, freshEventsData) \<Rightarrow>
             if truthy (get_prop ''success'' freshEventsData)
             then (case clear_flag e api1 of
                     (api2, fx2) \<Rightarrow>
                       (api2, fx1 @ fx2, set_prop ''server_events'' freshEventsData combinedData))
             else (api1, fx1, combinedData))
      else (api, [], combinedData))"

text \<open>
  \<^verbatim>\<open>_backgroundRefresh\<close>: the same two requests and the same merge, then the change
  check against the cached data; a failure is logged and goes nowhere else. The call
  resolves with undefined.
\<close>

definition backgroundRefresh :: "'c cacheService \<Rightarrow> env \<Rightarrow> 'c \<Rightarrow> DashboardAPI \<Rightarrow> 'c outcome" where
  "backgroundRefresh cs e c api =
     (case fetch_both e api of
        (api1, fx, Inl err) \<Rightarrow>
          \<lparr>api_after = api1, cache_after = c,
           effects = fx @ [Console ''error'' ''Background refresh failed:''],
           result = Inr JUndefined\<rparr>
      | (api1, fx, Inr (dashboardData, dueDatesData)) \<Rightarrow>
          let combinedData = combine dashboardData dueDatesData in
          if truthy (get_prop ''success'' (JObj combinedData)) then
            (let oldData = cache_getDashboardData cs (now e) c in
             if \<not> truthy oldData \<or> hasDataChanged cs (JObj combinedData) oldData
             then \<lparr>api_after = api1,
                   cache_after = saveDashboardData cs (now e) (JObj combinedData) c,
                   effects = fx @ [CacheSave (JObj combinedData),
                                   Dispatch (DashboardRefreshed (now e) 0)],
                   result = Inr JUndefined\<rparr>
             else \<lparr>api_after = api1, cache_after = c, effects = fx, result = Inr JUndefined\<rparr>)
          else \<lparr>api_after = api1, cache_after = c, effects = fx, result = Inr JUndefined\<rparr>)"

text \<open>
  \<^verbatim>\<open>_backgroundRefreshEvents\<close>. The cached object gets the two properties assigned and
  is saved. Properties assigned to an array do not show in its JSON form; assigning a
  property to a string, a number or a boolean throws in module code, which the outer
  \<^verbatim>\<open>catch\<close> logs.
\<close>

definition backgroundRefreshEvents :: "'c cacheService \<Rightarrow> env \<Rightarrow> 'c \<Rightarrow> DashboardAPI \<Rightarrow> 'c outcome" where
  "backgroundRefreshEvents cs e c api =
     (case fetchServerEvents e api of
        (api1, fx1, freshEventsData) \<Rightarrow>
          if truthy (get_prop ''success'' freshEventsData) then
            (let cachedData = cache_getDashboardData cs (now e) c in
             if truthy cachedData then
               (case cachedData of
                  JObj ps \<Rightarrow>
                    (let updated = JObj (set_prop ''server_events_update_flag'' (JBool False)
                                          (set_prop ''server_events'' freshEventsData ps)) in
                     case clear_flag e api1 of
                       (api2, fx2) \<Rightarrow>
                         \<lparr>api_after = api2,
                          cache_after = saveDashboardData cs (now e) updated c,
                          effects = fx1 @ [CacheSave updated] @ fx2
                                      @ [Dispatch (ServerEventsRefreshed freshEventsData)],
                          result = Inr JUndefined\<rparr>)
                | JArr xs \<Rightarrow>
                    (case clear_flag e api1 of
                       (api2, fx2) \<Rightarrow>
                         \<lparr>api_after = api2,
                          cache_after = saveDashboardData cs (now e) (JArr xs) c,
                          effects = fx1 @ [CacheSave (JArr xs)] @ fx2
                                      @ [Dispatch (ServerEventsRefreshed freshEventsData)],
                          result = Inr JUndefined\<rparr>)
                | _ \<Rightarrow>
                    \<lparr>api_after = api1, cache_after = c,
                     effects = fx1 @ [Console ''error'' ''Background refresh events failed:''],
                     result = Inr JUndefined\<rparr>)
             else \<lparr>api_after = api1, cache_after = c, effects = fx1, result = Inr JUndefined\<rparr>)
          else \<lparr>api_after = api1, cache_after = c, effects = fx1, result = Inr JUndefined\<rparr>)"


text \<open>
  The part of \<^verbatim>\<open>getDashboardData\<close> after the cache check: the \<^verbatim>\<open>try\<close> block with the
  two requests, the merge, the server-events block and the unconditional save, and the
  \<^verbatim>\<open>catch\<close> block that falls back to the cached data only when \<^verbatim>\<open>useCache\<close> is set.
\<close>

definition refresh_now :: "'c cacheService \<Rightarrow> bool \<Rightarrow> env \<Rightarrow> 'c \<Rightarrow> DashboardAPI \<Rightarrow> 'c outcome" where
  "refresh_now cs useCache e c api =
     (case fetch_both e api of
        (api1, fx, Inl error) \<Rightarrow>
          (let cachedData = cache_getDashboardData cs (now e) c in
           if useCache \<and> truthy cachedData
           then \<lparr>api_after = api1, cache_after = c, effects = fx,
                 result = Inr (JObj (set_prop ''_error'' (JStr (err_message error))
                                      (set_prop ''_fromCacheDueToError'' (JBool True)
                                         (spread cachedData))))\<rparr>
           else \<lparr>api_after = api1, cache_after = c, effects = fx, result = Inl error\<rparr>)
      | (api1, fx, Inr (dashboardData, dueDatesData)) \<Rightarrow>
          (case refresh_events e api1 (combine dashboardData dueDatesData) of
             (api2, fx2, combinedData) \<Rightarrow>
               if truthy (get_prop ''success'' (JObj combinedData))
               then \<lparr>api_after = api2,
                     cache_after = saveDashboardData cs (now e) (JObj combinedData) c,
                     effects = fx @ fx2 @ [CacheSave (JObj combinedData),
                                           Dispatch (DashboardRefreshed (now e) 0)],
                     result = Inr (JObj combinedData)\<rparr>
               else \<lparr>api_after = api2, cache_after = c, effects = fx @ fx2,
                     result = Inr (JObj combinedData)\<rparr>))"

text \<open>
  The cache branch of \<^verbatim>\<open>getDashboardData\<close>. The two background calls are started and
  not awaited; the value returned is the cached data read before they start. The model
  runs them to completion in the order they were started, which is one of the orders the
  event loop allows, and reports their effects with the call's.
\<close>

definition stay :: "'c \<Rightarrow> DashboardAPI \<Rightarrow> 'c outcome" where
  "stay c api = \<lparr>api_after = api, cache_after = c, effects = [], result = Inr JUndefined\<rparr>"

definition serve_cached :: "'c cacheService \<Rightarrow> env \<Rightarrow> 'c \<Rightarrow> DashboardAPI \<Rightarrow> jsval \<Rightarrow> 'c outcome" where
  "serve_cached cs e c api cachedData =
     (let o1 = (if get_prop ''server_events_update_flag'' cachedData = JStr ''true''
                then backgroundRefreshEvents cs e c api else stay c api);
          o2 = (if shouldTriggerBackgroundRefresh cs (now e) c
                then backgroundRefresh cs e (cache_after o1) (api_after o1)
                else stay (cache_after o1) (api_after o1))
      in \<lparr>api_after = api_after o2, cache_after = cache_after o2,
          effects = effects o1 @ effects o2, result = Inr cachedData\<rparr>)"

definition getDashboardData :: "'c cacheService \<Rightarrow> bool \<Rightarrow> env \<Rightarrow> 'c \<Rightarrow> DashboardAPI \<Rightarrow> 'c outcome" where
  "getDashboardData cs useCache e c api =
     (if useCache \<and> isCacheValid cs (now e) c
           \<and> truthy (cache_getDashboardData cs (now e) c)
      then serve_cached cs e c api (cache_getDashboardData cs (now e) c)
      else refresh_now cs useCache e c api)"


section \<open>Reading the effects of a call\<close>

fun requests :: "effect list \<Rightarrow> request list" where
  "requests [] = []"
| "requests (Fetch r # xs) = r # requests xs"
| "requests (x # xs) = requests xs"

fun dispatched :: "effect list \<Rightarrow> event list" where
  "dispatched [] = []"
| "dispatched (Dispatch ev # xs) = ev # dispatched xs"
| "dispatched (x # xs) = dispatched xs"

fun saves :: "effect list \<Rightarrow> jsval list" where
  "saves [] = []"
| "saves (CacheSave d # xs) = d # saves xs"
| "saves (x # xs) = saves xs"

text \<open>The value a call returned; undefined stands for a call that threw.\<close>

definition returned :: "'c outcome \<Rightarrow> jsval" where
  "returned out = (case result out of Inl err \<Rightarrow> JUndefined | Inr v \<Rightarrow> v)"

definition authorization :: "request \<Rightarrow> string option" where
  "authorization r = map_of (req_headers r) ''Authorization''"

section \<open>Credential precedence as the specification words it\<close>

text \<open>
  A stored credential is present when \<^verbatim>\<open>getItem\<close> gives a non-empty string. The
  precedence of the specification, for a request without an injected credential: the
  admin-scoped credential on an admin route, else the user-session credential, else the
  admin-scoped credential as the fallback.
\<close>

definition stored :: "storage \<Rightarrow> string \<Rightarrow> string option" where
  "stored ls k = (if token_set (ls k) then ls k else None)"

definition TokenResolver_resolve :: "string \<Rightarrow> storage \<Rightarrow> string option" where
  "TokenResolver_resolve url ls =
     (if str_includes url ''/admin/'' \<and> stored ls ''adminToken'' \<noteq> None
      then stored ls ''adminToken''
      else if stored ls ''session_token'' \<noteq> None then stored ls ''session_token''
      else stored ls ''adminToken'')"

section \<open>Sequences of calls\<close>

text \<open>
  Requests made one after the other on the same service object; storage and network may
  differ from one request to the next.
\<close>

fun fetch_all :: "(string \<times> options \<times> env) list \<Rightarrow> DashboardAPI \<Rightarrow> DashboardAPI \<times> effect list" where
  "fetch_all [] api = (api, [])"
| "fetch_all ((url, opts, e) # rs) api =
     (case fetchWithAuth url opts e api of
        (api1, fx, res) \<Rightarrow> (case fetch_all rs api1 of (api2, fx2) \<Rightarrow> (api2, fx @ fx2)))"

text \<open>
  An \<^verbatim>\<open>async\<close> function runs synchronously up to its first \<^verbatim>\<open>await\<close> that has to
  wait. For \<^verbatim>\<open>fetchWithAuth\<close> that is the token block and the call of \<^verbatim>\<open>fetch\<close>,
  which sends the request; for \<^verbatim>\<open>_backgroundRefresh\<close> it is that part of both
  \<^verbatim>\<open>fetchWithAuth\<close> calls. Calls made in the same tick each run this part before any
  response arrives.
\<close>

definition fetchWithAuth_start ::
  "string \<Rightarrow> options \<Rightarrow> storage \<Rightarrow> DashboardAPI \<Rightarrow> DashboardAPI \<times> request list" where
  "fetchWithAuth_start url opts ls api =
     (case resolve_token url ls api of
        Inl err \<Rightarrow> (api, [])
      | Inr api' \<Rightarrow> (api', [build_request url opts api']))"

definition backgroundRefresh_start :: "storage \<Rightarrow> DashboardAPI \<Rightarrow> DashboardAPI \<times> request list" where
  "backgroundRefresh_start ls api =
     (case fetchWithAuth_start ''/dashboard/data'' no_options ls api of
        (api1, rs1) \<Rightarrow>
          (case fetchWithAuth_start ''/portfolio/due-dates-data'' no_options ls api1 of
             (api2, rs2) \<Rightarrow> (api2, rs1 @ rs2)))"

fun backgroundRefresh_calls :: "nat \<Rightarrow> storage \<Rightarrow> DashboardAPI \<Rightarrow> DashboardAPI \<times> request list" where
  "backgroundRefresh_calls 0 ls api = (api, [])"
| "backgroundRefresh_calls (Suc n) ls api =
     (case backgroundRefresh_start ls api of
        (api1, rs1) \<Rightarrow>
          (case backgroundRefresh_calls n ls api1 of (api2, rs2) \<Rightarrow> (api2, rs1 @ rs2)))"

section \<open>The guard of the server-events carousel\<close>

text \<open>
  \<^verbatim>\<open>fetchEvents\<close> of \<^verbatim>\<open>ServerEventsCarousel.jsx\<close> up to its \<^verbatim>\<open>await fetch\<close>. Of the
  component's state only the flag \<^verbatim>\<open>fetchInProgress.current\<close> is kept; the value of
  \<^verbatim>\<open>getCachedEvents()\<close> at the call is an argument (null, or the cached array). The
  request goes to \<^verbatim>\<open>/api/v1/dashboard/data\<close> under the component's own base URL. The
  \<^verbatim>\<open>finally\<close> block clears the flag when the call ends, with or without a token.
\<close>

record carousel =
  fetchInProgress :: bool

datatype started =
    Skipped
  | FromCache "jsval list"
  | NoSession
  | Issued request

definition fetchEvents_start ::
  "bool \<Rightarrow> jsval list option \<Rightarrow> storage \<Rightarrow> carousel \<Rightarrow> carousel \<times> started" where
  "fetchEvents_start forceRefresh cached ls st =
     (if fetchInProgress st then (st, Skipped)
      else
        (case (if forceRefresh then None else cached) of
           Some (x # xs) \<Rightarrow> (st, FromCache (x # xs))
         | _ \<Rightarrow>
             (case ls ''session_token'' of
                None \<Rightarrow> (st\<lparr>fetchInProgress := False\<rparr>, NoSession)
              | Some t \<Rightarrow>
                  if t = [] then (st\<lparr>fetchInProgress := False\<rparr>, NoSession)
                  else (st\<lparr>fetchInProgress := True\<rparr>,
                        Issued \<lparr>req_url = ''/api/v1/dashboard/data'', req_method = Some ''GET'',
                                req_headers = [(''Authorization'', ''Bearer '' @ t),
                                               (''Content-Type'', ''application/json'')],
                                req_body = None\<rparr>))))"

definition fetchEvents_finish :: "carousel \<Rightarrow> carousel" where
  "fetchEvents_finish st = st\<lparr>fetchInProgress := False\<rparr>"

fun fetchEvents_calls ::
  "nat \<Rightarrow> bool \<Rightarrow> jsval list option \<Rightarrow> storage \<Rightarrow> carousel \<Rightarrow> carousel \<times> started list" where
  "fetchEvents_calls 0 forceRefresh cached ls st = (st, [])"
| "fetchEvents_calls (Suc n) forceRefresh cached ls st =
     (case fetchEvents_start forceRefresh cached ls st of
        (st1, r) \<Rightarrow>
          (case fetchEvents_calls n forceRefresh cached ls st1 of
             (st2, rs) \<Rightarrow> (st2, r # rs)))"

fun is_issued :: "started \<Rightarrow> bool" where
  "is_issued (Issued r) = True"
| "is_issued x = False"

section \<open>Scenarios\<close>

text \<open>Concrete storages, networks and caches, used to run the service below.\<close>

definition ls_both :: storage where
  "ls_both k =
     (if k = ''session_token'' then Some ''sess''
      else if k = ''adminToken'' then Some ''adm'' else None)"

definition ls_session :: storage where
  "ls_session k = (if k = ''session_token'' then Some ''sess'' else None)"

definition ls_none :: storage where
  "ls_none k = None"

definition net_ok :: "request \<Rightarrow> response" where
  "net_ok r = Response 200 (Inr (JObj [(''success'', JBool True)]))"

definition net_unavailable :: "request \<Rightarrow> response" where
  "net_unavailable r = Response 503 (Inr (JObj [(''detail'', JStr ''Service unavailable'')]))"

definition net_unauthorized :: "request \<Rightarrow> response" where
  "net_unauthorized r = Response 401 (Inr (JObj [(''detail'', JStr ''Unauthorized'')]))"

definition net_offline :: "request \<Rightarrow> response" where
  "net_offline r = FetchRejected (JsError ''TypeError'' ''Failed to fetch'')"

definition primary_payload :: jsval where
  "primary_payload =
     JObj [(''success'', JBool True),
           (''user'', JObj [(''id'', JNum 1)]),
           (''investment'', JObj [(''total_balance'', JNum 500)])]"

definition net_secondary_down :: "request \<Rightarrow> response" where
  "net_secondary_down r =
     (if req_url r = ''/dashboard/data'' then Response 200 (Inr primary_payload)
      else Response 500 (Inr (JObj [])))"



definition flagged_payload :: jsval where
  "flagged_payload =
     JObj [(''success'', JBool True), (''server_events_update_flag'', JStr ''true'')]"

definition events_payload :: jsval where
  "events_payload =
     JObj [(''success'', JBool True),
           (''events'', JArr [JObj [(''id'', JNum 7)]]),
           (''count'', JNum 1)]"

definition net_flagged :: "request \<Rightarrow> response" where
  "net_flagged r =
     (if req_url r = ''/dashboard/data'' then Response 200 (Inr flagged_payload)
      else if req_url r = ''/admin/server-events?include_inactive=false''
      then Response 200 (Inr events_payload)
      else Response 200 (Inr (JObj [(''success'', JBool True)])))"

definition env_of :: "storage \<Rightarrow> (request \<Rightarrow> response) \<Rightarrow> env" where
  "env_of ls net = \<lparr>localStorage = ls, network = net, now = 1000\<rparr>"

text \<open>
  A cache that keeps the last saved value; whether it counts as valid and whether a
  background refresh is due are fixed by the two arguments.
\<close>

definition mem_cache :: "bool \<Rightarrow> bool \<Rightarrow> jsval cacheService" where
  "mem_cache valid due =
     \<lparr>isCacheValid = (\<lambda>t c. valid),
      cache_getDashboardData = (\<lambda>t c. c),
      shouldTriggerBackgroundRefresh = (\<lambda>t c. due),
      hasDataChanged = (\<lambda>a b. a \<noteq> b),
      saveDashboardData = (\<lambda>t d c. d)\<rparr>"

section \<open>Properties of objects and effect lists\<close>

lemma map_of_set_prop: "map_of (set_prop k v ps) = (map_of ps)(k \<mapsto> v)"
  by (induction ps) (auto simp: fun_eq_iff)

lemma get_prop_set_prop:
  "get_prop k (JObj (set_prop k' v ps)) = (if k = k' then v else get_prop k (JObj ps))"
  by (simp add: map_of_set_prop)

lemma dispatched_map_Dispatch [simp]: "dispatched (map Dispatch evs) = evs"
  by (induction evs) auto

lemma requests_map_Dispatch [simp]: "requests (map Dispatch evs) = []"
  by (induction evs) auto

lemma saves_map_Dispatch [simp]: "saves (map Dispatch evs) = []"
  by (induction evs) auto

lemma requests_append [simp]: "requests (xs @ ys) = requests xs @ requests ys"
  by (induction xs rule: requests.induct) auto

lemma dispatched_append [simp]: "dispatched (xs @ ys) = dispatched xs @ dispatched ys"
  by (induction xs rule: dispatched.induct) auto

lemma saves_append [simp]: "saves (xs @ ys) = saves xs @ saves ys"
  by (induction xs rule: saves.induct) auto

text \<open>The service has three events; these are all the names it dispatches.\<close>

lemma event_names:
  "event_name ev \<in> {''network:error'', ''dashboard:refreshed'', ''server-events:refreshed''}"
  by (cases ev) simp_all

section \<open>Credentials\<close>

lemma authorization_build_request:
  assumes "token api = Some t" and "t \<noteq> []"
  shows "authorization (build_request url opts api) = Some (''Bearer '' @ t)"
  using assms by (simp add: authorization_def build_request_def build_headers_def map_of_set_prop)

lemma resolve_token_kept:
  "token_set (token api) \<Longrightarrow> resolve_token url ls api = Inr api"
  by (simp add: resolve_token_def)

lemma resolve_token_empty:
  assumes "\<not> token_set (token api)"
  shows "resolve_token url ls api =
           (case TokenResolver_resolve url ls of
              None \<Rightarrow> Inl (JsError ''Error'' ''No authentication token available'')
            | Some t \<Rightarrow> Inr (api\<lparr>token := Some t\<rparr>))"
  using assms
  by (auto simp: resolve_token_def TokenResolver_resolve_def stored_def adopt_def Let_def
           split: option.splits)

lemma resolve_token_sets:
  "resolve_token url ls api = Inr api' \<Longrightarrow> token_set (token api')"
  by (auto simp: resolve_token_def Let_def split: if_splits)

lemma fetchWithAuth_with_token:
  assumes "token api = Some t" and "t \<noteq> []"
  shows "fst (fetchWithAuth url opts e api) = api"
    and "map authorization (requests (fst (snd (fetchWithAuth url opts e api))))
           = [Some (''Bearer '' @ t)]"
  using assms
  by (auto simp: fetchWithAuth_def resolve_token_kept authorization_build_request
           split: prod.splits)

lemma fetch_all_with_token:
  assumes "token api = Some t" and "t \<noteq> []"
  shows "fst (fetch_all rs api) = api
         \<and> map authorization (requests (snd (fetch_all rs api)))
             = replicate (length rs) (Some (''Bearer '' @ t))"
  using assms
proof (induction rs)
  case Nil
  then show ?case by simp
next
  case (Cons r rs)
  obtain url opts e where r: "r = (url, opts, e)" by (cases r) auto
  obtain api1 fx res where f: "fetchWithAuth url opts e api = (api1, fx, res)"
    by (cases "fetchWithAuth url opts e api") auto
  from fetchWithAuth_with_token [OF Cons.prems, of url opts e] f
  have "api1 = api" and "map authorization (requests fx) = [Some (''Bearer '' @ t)]"
    by simp_all
  with Cons r f show ?case
    by (auto split: prod.splits)
qed

text \<open>
  C3, as amended. A request made while the token field of the service is empty selects
  its credential by the precedence of the specification: the stored admin credential on
  an admin route, else the stored session credential, else the stored admin credential.
  The selected credential is written to the token field and sent as the bearer token of
  the one request issued. When nothing is stored the call throws
  \<^verbatim>\<open>Error('No authentication token available')\<close>, leaves the service unchanged and issues
  no request.
\<close>

theorem fetchWithAuth_precedence:
  assumes "\<not> token_set (token api)"
  shows "case TokenResolver_resolve url (localStorage e) of
           None \<Rightarrow>
             fetchWithAuth url opts e api
               = (api, [], Inl (JsError ''Error'' ''No authentication token available''))
         | Some t \<Rightarrow>
             fst (fetchWithAuth url opts e api) = api\<lparr>token := Some t\<rparr>
             \<and> map authorization (requests (fst (snd (fetchWithAuth url opts e api))))
                 = [Some (''Bearer '' @ t)]"
proof (cases "TokenResolver_resolve url (localStorage e)")
  case None
  then show ?thesis
    using assms by (simp add: fetchWithAuth_def resolve_token_empty)
next
  case (Some t)
  then have "t \<noteq> []"
    by (auto simp: TokenResolver_resolve_def stored_def split: if_splits)
  with Some show ?thesis
    using assms
    by (auto simp: fetchWithAuth_def resolve_token_empty authorization_build_request
             split: prod.splits)
qed

text \<open>
  A fresh service, both credentials stored, an admin route: the admin credential is
  selected.
\<close>

theorem fetchWithAuth_precedence_witness:
  "\<not> token_set (token new_DashboardAPI)
   \<and> fst (fetchWithAuth ''/admin/server-events'' no_options (env_of ls_both net_ok) new_DashboardAPI)
       = \<lparr>token = Some ''adm''\<rparr>
   \<and> map authorization (requests (fst (snd
         (fetchWithAuth ''/admin/server-events'' no_options (env_of ls_both net_ok) new_DashboardAPI))))
       = [Some ''Bearer adm'']"
  using fetchWithAuth_precedence [where api = new_DashboardAPI
          and url = "''/admin/server-events''" and e = "env_of ls_both net_ok"
          and opts = no_options]
  by (simp add: new_DashboardAPI_def TokenResolver_resolve_def stored_def ls_both_def env_of_def)

text \<open>
  C3 as stated fails on the second request of a service into which nothing was injected:
  with both credentials stored, a request to a user route followed by one to an admin
  route sends the session credential on both, where the precedence names the admin
  credential for the second.
\<close>

theorem precedence_counterexample:
  "map authorization (requests (snd (fetch_all
       [(''/dashboard/data'', no_options, env_of ls_both net_ok),
        (''/admin/server-events?include_inactive=false'', no_options, env_of ls_both net_ok)]
       new_DashboardAPI)))
     = [Some ''Bearer sess'', Some ''Bearer sess'']
   \<and> TokenResolver_resolve ''/admin/server-events?include_inactive=false'' ls_both = Some ''adm''"
  by (simp add: fetchWithAuth_def resolve_token_def adopt_def new_DashboardAPI_def Let_def
        ls_both_def env_of_def net_ok_def settle_def response_ok_def
        authorization_def build_request_def build_headers_def no_options_def
        TokenResolver_resolve_def stored_def)

text \<open>
  C10. Once a request of the service has been sent, the token field holds a non-empty
  credential, and every later request sends that credential, whatever its route, the
  storage and the network at that time, and leaves the field as it is. After
  \<^verbatim>\<open>setToken\<close> with a non-empty credential every later request sends the new one.
\<close>

theorem token_resolved_once:
  assumes "requests (fst (snd (fetchWithAuth url opts e api0))) \<noteq> []"
  shows "\<exists>t. t \<noteq> [] \<and> token (fst (fetchWithAuth url opts e api0)) = Some t
           \<and> (\<forall>rs. fst (fetch_all rs (fst (fetchWithAuth url opts e api0)))
                       = fst (fetchWithAuth url opts e api0)
                 \<and> map authorization
                     (requests (snd (fetch_all rs (fst (fetchWithAuth url opts e api0)))))
                     = replicate (length rs) (Some (''Bearer '' @ t)))
           \<and> (\<forall>rs t'. t' \<noteq> [] \<longrightarrow>
                 map authorization
                   (requests (snd (fetch_all rs
                      (setToken (Some t') (fst (fetchWithAuth url opts e api0))))))
                   = replicate (length rs) (Some (''Bearer '' @ t')))"
proof -
  define api where "api = fst (fetchWithAuth url opts e api0)"
  from assms obtain api' where "resolve_token url (localStorage e) api0 = Inr api'" and "api = api'"
    by (auto simp: api_def fetchWithAuth_def split: sum.splits prod.splits)
  then have "token_set (token api)"
    using resolve_token_sets by blast
  then obtain t where t: "token api = Some t" "t \<noteq> []"
    by (cases "token api") auto
  have "\<And>rs t'. t' \<noteq> [] \<Longrightarrow>
          map authorization (requests (snd (fetch_all rs (setToken (Some t') api))))
            = replicate (length rs) (Some (''Bearer '' @ t'))"
    using fetch_all_with_token [of "setToken (Some _) api"] by (simp add: setToken_def)
  with t fetch_all_with_token [OF t] show ?thesis
    unfolding api_def by blast
qed

text \<open>
  The first request goes to a user route and resolves the session credential; a later
  request to an admin route still sends it, although an admin credential is stored.
\<close>

theorem token_resolved_once_witness:
  "requests (fst (snd (fetchWithAuth ''/dashboard/data'' no_options (env_of ls_both net_ok)
                         new_DashboardAPI))) \<noteq> []
   \<and> map authorization (requests (snd (fetch_all
         [(''/admin/server-events'', no_options, env_of ls_both net_offline)]
         (fst (fetchWithAuth ''/dashboard/data'' no_options (env_of ls_both net_ok)
                 new_DashboardAPI)))))
       = [Some ''Bearer sess'']"
proof -
  have sent: "requests (fst (snd (fetchWithAuth ''/dashboard/data'' no_options
                 (env_of ls_both net_ok) new_DashboardAPI))) \<noteq> []"
    by (simp add: fetchWithAuth_def resolve_token_def adopt_def new_DashboardAPI_def Let_def
          ls_both_def env_of_def net_ok_def settle_def response_ok_def)
  have tok: "token (fst (fetchWithAuth ''/dashboard/data'' no_options
                 (env_of ls_both net_ok) new_DashboardAPI)) = Some ''sess''"
    by (simp add: fetchWithAuth_def resolve_token_def adopt_def new_DashboardAPI_def Let_def
          ls_both_def env_of_def net_ok_def settle_def response_ok_def)
  from token_resolved_once [OF sent] obtain t where
    t: "token (fst (fetchWithAuth ''/dashboard/data'' no_options
                 (env_of ls_both net_ok) new_DashboardAPI)) = Some t"
    and later: "\<And>rs. map authorization (requests (snd (fetch_all rs
                 (fst (fetchWithAuth ''/dashboard/data'' no_options
                    (env_of ls_both net_ok) new_DashboardAPI)))))
               = replicate (length rs) (Some (''Bearer '' @ t))"
    by blast
  from t tok have "t = ''sess''" by simp
  with later [of "[(''/admin/server-events'', no_options, env_of ls_both net_offline)]"] sent
  show ?thesis
    by (simp del: fetch_all.simps)
qed

section \<open>Requests and refreshes\<close>



lemma settle_events: "set (fst (settle r)) \<subseteq> {NetworkError}"
  by (auto simp: settle_def fetch_catch_def Let_def split: response.splits sum.splits)



lemma fetchWithAuth_sent:
  assumes "resolve_token url (localStorage e) api = Inr api'"
  shows "fetchWithAuth url opts e api =
           (api', Fetch (build_request url opts api')
                    # map Dispatch (fst (settle (network e (build_request url opts api')))),
            snd (settle (network e (build_request url opts api'))))"
  using assms by (simp add: fetchWithAuth_def split: prod.splits)

lemma fetchWithAuth_unsent:
  assumes "resolve_token url (localStorage e) api = Inl err"
  shows "fetchWithAuth url opts e api = (api, [], Inl err)"
  using assms by (simp add: fetchWithAuth_def)

text \<open>What any single request can do besides being sent.\<close>

lemma fetchWithAuth_dispatched:
  "set (dispatched (fst (snd (fetchWithAuth url opts e api)))) \<subseteq> {NetworkError}"
proof (cases "resolve_token url (localStorage e) api")
  case (Inl err)
  then show ?thesis by (simp add: fetchWithAuth_unsent)
next
  case (Inr api')
  then show ?thesis using settle_events by (simp add: fetchWithAuth_sent)
qed

lemma fetchWithAuth_saves: "saves (fst (snd (fetchWithAuth url opts e api))) = []"
  by (cases "resolve_token url (localStorage e) api")
     (simp_all add: fetchWithAuth_unsent fetchWithAuth_sent)


lemma dispatched_filter_fetch [simp]:
  "dispatched (filter is_fetch xs) = []"
  "dispatched (filter (\<lambda>x. \<not> is_fetch x) xs) = dispatched xs"
  by (induction xs rule: dispatched.induct) auto

lemma saves_filter_fetch [simp]:
  "saves (filter is_fetch xs) = []"
  "saves (filter (\<lambda>x. \<not> is_fetch x) xs) = saves xs"
  by (induction xs rule: saves.induct) auto

lemma requests_filter_fetch [simp]:
  "requests (filter is_fetch xs) = requests xs"
  "requests (filter (\<lambda>x. \<not> is_fetch x) xs) = []"
  by (induction xs rule: requests.induct) auto

lemma fetch_both_unfold:
  assumes "fetchWithAuth ''/dashboard/data'' no_options e api = (api1, fx1, r1)"
    and "fetchWithAuth ''/portfolio/due-dates-data'' no_options e api1 = (api2, fx2, r2)"
  shows "fetch_both e api =
           (api2, filter is_fetch (fx1 @ fx2) @ filter (\<lambda>x. \<not> is_fetch x) (fx1 @ fx2),
            (case r1 of Inl err \<Rightarrow> Inl err
             | Inr d \<Rightarrow> Inr (d, (case r2 of Inl _ \<Rightarrow> JNull | Inr d2 \<Rightarrow> d2))))"
  using assms by (simp add: fetch_both_def)

lemma fetch_both_dispatched:
  "set (dispatched (fst (snd (fetch_both e api)))) \<subseteq> {NetworkError}"
proof -
  obtain api1 fx1 r1 where p: "fetchWithAuth ''/dashboard/data'' no_options e api = (api1, fx1, r1)"
    by (cases "fetchWithAuth ''/dashboard/data'' no_options e api") auto
  obtain api2 fx2 r2 where
    s: "fetchWithAuth ''/portfolio/due-dates-data'' no_options e api1 = (api2, fx2, r2)"
    by (cases "fetchWithAuth ''/portfolio/due-dates-data'' no_options e api1") auto
  from fetchWithAuth_dispatched [of "''/dashboard/data''" no_options e api] p
  have "set (dispatched fx1) \<subseteq> {NetworkError}" by simp
  moreover from fetchWithAuth_dispatched [of "''/portfolio/due-dates-data''" no_options e api1] s
  have "set (dispatched fx2) \<subseteq> {NetworkError}" by simp
  ultimately show ?thesis
    by (simp add: fetch_both_unfold [OF p s])
qed

lemma fetch_both_saves: "saves (fst (snd (fetch_both e api))) = []"
proof -
  obtain api1 fx1 r1 where p: "fetchWithAuth ''/dashboard/data'' no_options e api = (api1, fx1, r1)"
    by (cases "fetchWithAuth ''/dashboard/data'' no_options e api") auto
  obtain api2 fx2 r2 where
    s: "fetchWithAuth ''/portfolio/due-dates-data'' no_options e api1 = (api2, fx2, r2)"
    by (cases "fetchWithAuth ''/portfolio/due-dates-data'' no_options e api1") auto
  from fetchWithAuth_saves [of "''/dashboard/data''" no_options e api] p
  have "saves fx1 = []" by simp
  moreover from fetchWithAuth_saves [of "''/portfolio/due-dates-data''" no_options e api1] s
  have "saves fx2 = []" by simp
  ultimately show ?thesis
    by (simp add: fetch_both_unfold [OF p s])
qed


lemma fetch_both_primary_failed:
  assumes "snd (snd (fetchWithAuth ''/dashboard/data'' no_options e api)) = Inl err"
  shows "snd (snd (fetch_both e api)) = Inl err"
  using assms by (auto simp: fetch_both_def split: prod.splits)

lemma refresh_now_failed:
  assumes "snd (snd (fetchWithAuth ''/dashboard/data'' no_options e api)) = Inl err"
  shows "result (refresh_now cs useCache e c api) =
           (if useCache \<and> truthy (cache_getDashboardData cs (now e) c)
            then Inr (JObj (set_prop ''_error'' (JStr (err_message err))
                             (set_prop ''_fromCacheDueToError'' (JBool True)
                                (spread (cache_getDashboardData cs (now e) c)))))
            else Inl err)"
    and "cache_after (refresh_now cs useCache e c api) = c"
    and "effects (refresh_now cs useCache e c api) = fst (snd (fetch_both e api))"
  using fetch_both_primary_failed [OF assms]
  by (auto simp: refresh_now_def Let_def split: prod.splits sum.splits)

lemma fetchServerEvents_no_success:
  "get_prop ''success'' (snd (snd (fetchServerEvents e api))) = JUndefined"
  by (auto simp: fetchServerEvents_def empty_events_def split: prod.splits sum.splits)

lemma fetchServerEvents_effects:
  "saves (fst (snd (fetchServerEvents e api))) = []"
  "set (dispatched (fst (snd (fetchServerEvents e api)))) \<subseteq> {NetworkError}"
  using fetchWithAuth_saves [of "''/admin/server-events?include_inactive=false''" no_options e api]
        fetchWithAuth_dispatched [of "''/admin/server-events?include_inactive=false''" no_options e api]
  by (auto simp: fetchServerEvents_def split: prod.splits sum.splits)

lemma clear_flag_effects:
  "saves (snd (clear_flag e api)) = []"
  "set (dispatched (snd (clear_flag e api))) \<subseteq> {NetworkError}"
  using fetchWithAuth_saves [of "''/admin/clear-server-events-flag''" post_options e api]
        fetchWithAuth_dispatched [of "''/admin/clear-server-events-flag''" post_options e api]
  by (auto simp: clear_flag_def split: prod.splits sum.splits)

lemma refresh_events_props:
  assumes "k \<noteq> ''server_events''"
  shows "get_prop k (JObj (snd (snd (refresh_events e api cd)))) = get_prop k (JObj cd)"
  using assms by (auto simp: refresh_events_def map_of_set_prop split: prod.splits)

lemma refresh_events_effects:
  "saves (fst (snd (refresh_events e api cd))) = []"
  "set (dispatched (fst (snd (refresh_events e api cd)))) \<subseteq> {NetworkError}"
proof -
  obtain api1 fx1 fresh where f: "fetchServerEvents e api = (api1, fx1, fresh)"
    by (cases "fetchServerEvents e api") auto
  obtain api2 fx2 where c: "clear_flag e api1 = (api2, fx2)"
    by (cases "clear_flag e api1") auto
  from fetchServerEvents_effects [of e api] f
  have 1: "saves fx1 = []" "set (dispatched fx1) \<subseteq> {NetworkError}" by simp_all
  from clear_flag_effects [of e api1] c
  have 2: "saves fx2 = []" "set (dispatched fx2) \<subseteq> {NetworkError}" by simp_all
  from 1 2 f c show "saves (fst (snd (refresh_events e api cd))) = []"
    by (simp add: refresh_events_def)
  from 1 2 f c show "set (dispatched (fst (snd (refresh_events e api cd)))) \<subseteq> {NetworkError}"
    by (simp add: refresh_events_def)
qed

lemma combine_null: "combine d JNull = spread d"
  by (simp add: combine_def)

lemma fetch_both_secondary_failed:
  assumes "fetchWithAuth ''/dashboard/data'' no_options e api = (api1, fx1, Inr d)"
    and "snd (snd (fetchWithAuth ''/portfolio/due-dates-data'' no_options e api1)) = Inl err2"
  shows "snd (snd (fetch_both e api)) = Inr (d, JNull)"
  using assms by (auto simp: fetch_both_def split: prod.splits)

lemma refresh_now_succeeded:
  assumes "snd (snd (fetch_both e api)) = Inr (d, dd)"
  shows "result (refresh_now cs useCache e c api)
           = Inr (JObj (snd (snd (refresh_events e (fst (fetch_both e api)) (combine d dd)))))"
    and "saves (effects (refresh_now cs useCache e c api))
           = (if truthy (get_prop ''success'' (JObj (combine d dd)))
              then [JObj (snd (snd (refresh_events e (fst (fetch_both e api)) (combine d dd))))]
              else [])"
    and "truthy (get_prop ''success'' (JObj (combine d dd)))
           \<Longrightarrow> DashboardRefreshed (now e) 0
                 \<in> set (dispatched (effects (refresh_now cs useCache e c api)))"
proof -
  obtain api1 fx where b: "fetch_both e api = (api1, fx, Inr (d, dd))"
    using assms by (cases "fetch_both e api") auto
  obtain api2 fx2 cd where r: "refresh_events e api1 (combine d dd) = (api2, fx2, cd)"
    by (cases "refresh_events e api1 (combine d dd)") auto
  from refresh_events_props [of "''success''" e api1 "combine d dd"] r
  have s: "get_prop ''success'' (JObj cd) = get_prop ''success'' (JObj (combine d dd))"
    by simp
  from fetch_both_saves [of e api] b have f1: "saves fx = []" by simp
  from refresh_events_effects(1) [of e api1 "combine d dd"] r have f2: "saves fx2 = []" by simp
  show "result (refresh_now cs useCache e c api)
           = Inr (JObj (snd (snd (refresh_events e (fst (fetch_both e api)) (combine d dd)))))"
    using b r by (simp add: refresh_now_def)
  show "saves (effects (refresh_now cs useCache e c api))
           = (if truthy (get_prop ''success'' (JObj (combine d dd)))
              then [JObj (snd (snd (refresh_events e (fst (fetch_both e api)) (combine d dd))))]
              else [])"
    using b r s f1 f2 by (simp add: refresh_now_def)
  show "truthy (get_prop ''success'' (JObj (combine d dd)))
           \<Longrightarrow> DashboardRefreshed (now e) 0
                 \<in> set (dispatched (effects (refresh_now cs useCache e c api)))"
    using b r s by (simp add: refresh_now_def)
qed



text \<open>The definitions a concrete run unfolds.\<close>

lemmas run_defs =
  getDashboardData_def refresh_now_def serve_cached_def stay_def backgroundRefresh_def
  backgroundRefreshEvents_def fetch_both_def combine_def refresh_events_def
  fetchServerEvents_def clear_flag_def empty_events_def or_else_def
  fetchWithAuth_def resolve_token_def adopt_def settle_def fetch_catch_def response_ok_def
  build_request_def build_headers_def no_options_def post_options_def new_DashboardAPI_def
  env_of_def mem_cache_def ls_both_def ls_session_def ls_none_def
  net_ok_def net_unavailable_def net_unauthorized_def net_offline_def net_secondary_down_def
  net_flagged_def primary_payload_def flagged_payload_def events_payload_def Let_def

section \<open>Failure of the primary request\<close>




text \<open>
  C2. With \<^verbatim>\<open>useCache = false\<close> the value returned, or the error thrown, does not depend
  on the cache service or on what it holds; and a failure of the primary request is thrown
  to the caller as \<^verbatim>\<open>fetchWithAuth\<close> raised it.
\<close>

theorem forced_refresh_bypasses_cache:
  "result (getDashboardData cs False e c api) = result (getDashboardData cs' False e c' api)
   \<and> (snd (snd (fetchWithAuth ''/dashboard/data'' no_options e api)) = Inl err
        \<longrightarrow> result (getDashboardData cs False e c api) = Inl err)"
proof -
  have "result (refresh_now cs False e c api) = result (refresh_now cs' False e c' api)"
    by (auto simp: refresh_now_def Let_def split: prod.splits sum.splits)
  then show ?thesis
    by (simp add: getDashboardData_def refresh_now_failed)
qed

text \<open>A valid cache entry is at hand, the backend answers 503, the forced call throws.\<close>

theorem forced_refresh_bypasses_cache_witness:
  "snd (snd (fetchWithAuth ''/dashboard/data'' no_options (env_of ls_session net_unavailable)
               new_DashboardAPI)) = Inl (JsError ''Error'' ''Service unavailable'')
   \<and> isCacheValid (mem_cache True False) (now (env_of ls_session net_unavailable))
        (JObj [(''success'', JBool True)])
   \<and> result (getDashboardData (mem_cache True False) False (env_of ls_session net_unavailable)
               (JObj [(''success'', JBool True)]) new_DashboardAPI)
       = Inl (JsError ''Error'' ''Service unavailable'')"
proof -
  have p: "snd (snd (fetchWithAuth ''/dashboard/data'' no_options
                       (env_of ls_session net_unavailable) new_DashboardAPI))
             = Inl (JsError ''Error'' ''Service unavailable'')"
    by (simp add: run_defs)
  from forced_refresh_bypasses_cache [where cs = "mem_cache True False" and cs' = "mem_cache True False"
         and e = "env_of ls_session net_unavailable" and api = new_DashboardAPI
         and c = "JObj [(''success'', JBool True)]" and c' = "JObj [(''success'', JBool True)]"
         and err = "JsError ''Error'' ''Service unavailable''"] p
  show ?thesis
    by (simp add: mem_cache_def)
qed

section \<open>Failure of the secondary request\<close>

text \<open>
  C4, as amended. In a refresh whose primary request succeeds and whose secondary request
  fails, the call does not throw; the object it returns has every property of the primary
  payload with the payload's value, \<^verbatim>\<open>server_events\<close> apart, which the server-events
  block may replace; nothing is attached for the secondary section, and no \<^verbatim>\<open>partial\<close>
  marker is set: \<^verbatim>\<open>due_dates\<close> and \<^verbatim>\<open>partial\<close> are what the primary payload had for
  them. When the payload's \<^verbatim>\<open>success\<close> is truthy, the returned object is what is saved to
  the cache.
\<close>

theorem secondary_failure_tolerated:
  assumes primary: "fetchWithAuth ''/dashboard/data'' no_options e api = (api1, fx1, Inr d)"
    and secondary: "snd (snd (fetchWithAuth ''/portfolio/due-dates-data'' no_options e api1)) = Inl err2"
    and refreshes: "\<not> (useCache \<and> isCacheValid cs (now e) c
                          \<and> truthy (cache_getDashboardData cs (now e) c))"
  shows "\<exists>ps. result (getDashboardData cs useCache e c api) = Inr (JObj ps)
           \<and> (\<forall>k. k \<noteq> ''server_events'' \<longrightarrow> get_prop k (JObj ps) = get_prop k (JObj (spread d)))
           \<and> saves (effects (getDashboardData cs useCache e c api))
               = (if truthy (get_prop ''success'' (JObj (spread d))) then [JObj ps] else [])"
proof -
  from refreshes have g: "getDashboardData cs useCache e c api = refresh_now cs useCache e c api"
    by (auto simp: getDashboardData_def)
  note b = fetch_both_secondary_failed [OF primary secondary]
  show ?thesis
    unfolding g refresh_now_succeeded(1,2) [OF b]
    by (simp add: refresh_events_props combine_null del: get_prop.simps)
qed

text \<open>
  The scenario of the specification: empty cache, the primary payload with a user and an
  investment, the secondary request answered 500.
\<close>

theorem secondary_failure_tolerated_witness:
  "fetchWithAuth ''/dashboard/data'' no_options (env_of ls_session net_secondary_down)
       new_DashboardAPI
     = (\<lparr>token = Some ''sess''\<rparr>,
        [Fetch (build_request ''/dashboard/data'' no_options \<lparr>token = Some ''sess''\<rparr>)],
        Inr primary_payload)
   \<and> snd (snd (fetchWithAuth ''/portfolio/due-dates-data'' no_options
                  (env_of ls_session net_secondary_down) \<lparr>token = Some ''sess''\<rparr>))
       = Inl (JsError ''Error'' ''HTTP error! status: 500'')
   \<and> get_prop ''investment''
        (returned (getDashboardData (mem_cache False False) True
                     (env_of ls_session net_secondary_down) JNull new_DashboardAPI))
       = JObj [(''total_balance'', JNum 500)]
   \<and> saves (effects (getDashboardData (mem_cache False False) True
                        (env_of ls_session net_secondary_down) JNull new_DashboardAPI))
       = [returned (getDashboardData (mem_cache False False) True
                     (env_of ls_session net_secondary_down) JNull new_DashboardAPI)]"
proof -
  have m: "show_nat 500 = ''500''" by code_simp
  have p: "fetchWithAuth ''/dashboard/data'' no_options (env_of ls_session net_secondary_down)
               new_DashboardAPI
             = (\<lparr>token = Some ''sess''\<rparr>,
                [Fetch (build_request ''/dashboard/data'' no_options \<lparr>token = Some ''sess''\<rparr>)],
                Inr primary_payload)"
    by (simp add: fetchWithAuth_def resolve_token_def adopt_def settle_def response_ok_def
          new_DashboardAPI_def env_of_def ls_session_def net_secondary_down_def Let_def
          build_request_def)
  have s: "snd (snd (fetchWithAuth ''/portfolio/due-dates-data'' no_options
                  (env_of ls_session net_secondary_down) \<lparr>token = Some ''sess''\<rparr>))
             = Inl (JsError ''Error'' ''HTTP error! status: 500'')"
    by (simp add: fetchWithAuth_def resolve_token_def settle_def fetch_catch_def response_ok_def
          env_of_def net_secondary_down_def Let_def build_request_def m)
  have r: "\<not> (True \<and> isCacheValid (mem_cache False False)
                         (now (env_of ls_session net_secondary_down)) JNull
                 \<and> truthy (cache_getDashboardData (mem_cache False False)
                         (now (env_of ls_session net_secondary_down)) JNull))"
    by (simp add: mem_cache_def)
  from secondary_failure_tolerated [OF p s r] obtain ps where
    res: "result (getDashboardData (mem_cache False False) True
                    (env_of ls_session net_secondary_down) JNull new_DashboardAPI) = Inr (JObj ps)"
    and props: "\<And>k. k \<noteq> ''server_events''
                  \<Longrightarrow> get_prop k (JObj ps) = get_prop k (JObj (spread primary_payload))"
    and sv: "saves (effects (getDashboardData (mem_cache False False) True
                    (env_of ls_session net_secondary_down) JNull new_DashboardAPI))
               = (if truthy (get_prop ''success'' (JObj (spread primary_payload)))
                  then [JObj ps] else [])"
    by blast
  from props [of "''investment''"]
  have "get_prop ''investment'' (JObj ps) = JObj [(''total_balance'', JNum 500)]"
    by (simp add: primary_payload_def)
  moreover from sv have "saves (effects (getDashboardData (mem_cache False False) True
                    (env_of ls_session net_secondary_down) JNull new_DashboardAPI)) = [JObj ps]"
    by (simp add: primary_payload_def)
  ultimately show ?thesis
    using p s res by (simp add: returned_def del: get_prop.simps)
qed

text \<open>
  C4 as stated asks for \<^verbatim>\<open>partial = true\<close> on the merged snapshot. In the same scenario
  the returned object is the primary payload and has no \<^verbatim>\<open>partial\<close> property.
\<close>

theorem partial_marker_counterexample:
  "result (getDashboardData (mem_cache False False) True
             (env_of ls_session net_secondary_down) JNull new_DashboardAPI)
     = Inr (JObj [(''success'', JBool True),
                  (''user'', JObj [(''id'', JNum 1)]),
                  (''investment'', JObj [(''total_balance'', JNum 500)])])
   \<and> get_prop ''partial''
        (returned (getDashboardData (mem_cache False False) True
                     (env_of ls_session net_secondary_down) JNull new_DashboardAPI))
       = JUndefined"
  by (simp add: run_defs returned_def)

section \<open>The server-events flag\<close>

lemma fetchWithAuth_urls:
  "set (map req_url (requests (fst (snd (fetchWithAuth url opts e api))))) \<subseteq> {url}"
  by (cases "resolve_token url (localStorage e) api")
     (simp_all add: fetchWithAuth_unsent fetchWithAuth_sent build_request_def)

lemma fetchServerEvents_requests:
  "requests (fst (snd (fetchServerEvents e api)))
     = requests (fst (snd (fetchWithAuth ''/admin/server-events?include_inactive=false''
                             no_options e api)))"
  by (auto simp: fetchServerEvents_def split: prod.splits sum.splits)

lemma fetchServerEvents_urls:
  "set (map req_url (requests (fst (snd (fetchServerEvents e api)))))
     \<subseteq> {''/admin/server-events?include_inactive=false''}"
  unfolding fetchServerEvents_requests by (rule fetchWithAuth_urls)

text \<open>
  The server-events block never changes the merged snapshot and sends nothing but the
  request for the events: the acknowledgement is unreachable, for every payload and
  every network.
\<close>

lemma refresh_events_never_acknowledges:
  "snd (snd (refresh_events e api combinedData)) = combinedData"
  "set (map req_url (requests (fst (snd (refresh_events e api combinedData)))))
     \<subseteq> {''/admin/server-events?include_inactive=false''}"
proof -
  obtain api1 fx1 fresh where f: "fetchServerEvents e api = (api1, fx1, fresh)"
    by (cases "fetchServerEvents e api") auto
  from fetchServerEvents_no_success [of e api] f
  have n: "\<not> truthy (get_prop ''success'' fresh)" by simp
  from fetchServerEvents_urls [of e api] f
  have u: "set (map req_url (requests fx1)) \<subseteq> {''/admin/server-events?include_inactive=false''}"
    by simp
  from f n show "snd (snd (refresh_events e api combinedData)) = combinedData"
    by (simp add: refresh_events_def del: get_prop.simps)
  from f n u show "set (map req_url (requests (fst (snd (refresh_events e api combinedData)))))
     \<subseteq> {''/admin/server-events?include_inactive=false''}"
    by (simp add: refresh_events_def del: get_prop.simps)
qed

text \<open>
  C8. The claim asks that a successful fetch of the server events is followed by the
  acknowledgement POST. \<^verbatim>\<open>getDashboardData\<close> tests \<^verbatim>\<open>freshEventsData.success\<close>, but the
  object \<^verbatim>\<open>_fetchServerEvents\<close> returns has only \<^verbatim>\<open>events\<close> and \<^verbatim>\<open>count\<close>, so the test
  fails on every response. Here the primary payload carries the flag and the events
  endpoint answers with \<^verbatim>\<open>success: true\<close> and one event: the three GET requests are all
  that is sent, no POST to \<^verbatim>\<open>/admin/clear-server-events-flag\<close> follows, and the events
  are not merged into the returned object.
\<close>

theorem events_flag_never_cleared:
  "map req_url (requests (effects (getDashboardData (mem_cache False False) True
                                     (env_of ls_session net_flagged) JNull new_DashboardAPI)))
     = [''/dashboard/data'', ''/portfolio/due-dates-data'',
        ''/admin/server-events?include_inactive=false'']
   \<and> network (env_of ls_session net_flagged)
         (build_request ''/admin/server-events?include_inactive=false'' no_options
            \<lparr>token = Some ''sess''\<rparr>)
       = Response 200 (Inr events_payload)
   \<and> get_prop ''success'' events_payload = JBool True
   \<and> get_prop ''server_events''
        (returned (getDashboardData (mem_cache False False) True
                     (env_of ls_session net_flagged) JNull new_DashboardAPI))
       = JUndefined"
  by (simp add: run_defs returned_def)

section \<open>Unauthorized responses\<close>




section \<open>Change suppression\<close>

lemma backgroundRefresh_succeeded:
  assumes "snd (snd (fetch_both e api)) = Inr (d, dd)"
  shows "backgroundRefresh cs e c api =
           (if truthy (get_prop ''success'' (JObj (combine d dd)))
               \<and> (\<not> truthy (cache_getDashboardData cs (now e) c)
                    \<or> hasDataChanged cs (JObj (combine d dd)) (cache_getDashboardData cs (now e) c))
            then \<lparr>api_after = fst (fetch_both e api),
                  cache_after = saveDashboardData cs (now e) (JObj (combine d dd)) c,
                  effects = fst (snd (fetch_both e api))
                              @ [CacheSave (JObj (combine d dd)),
                                 Dispatch (DashboardRefreshed (now e) 0)],
                  result = Inr JUndefined\<rparr>
            else \<lparr>api_after = fst (fetch_both e api), cache_after = c,
                  effects = fst (snd (fetch_both e api)), result = Inr JUndefined\<rparr>)"
proof -
  obtain api1 fx where b: "fetch_both e api = (api1, fx, Inr (d, dd))"
    using assms by (cases "fetch_both e api") auto
  then show ?thesis
    by (simp add: backgroundRefresh_def Let_def del: get_prop.simps)
qed

text \<open>
  C6, as amended. A background refresh (\<^verbatim>\<open>_backgroundRefresh\<close>) that fetched successfully
  and whose merged snapshot \<^verbatim>\<open>hasDataChanged\<close> reports as unchanged against the cached
  data leaves the cache as it is, saves nothing and dispatches no
  \<^verbatim>\<open>dashboard:refreshed\<close>. The refresh that \<^verbatim>\<open>getDashboardData\<close> itself performs
  (\<open>refresh_now\<close>) has no such check: whenever the snapshot's \<^verbatim>\<open>success\<close> is truthy it
  saves it and dispatches \<^verbatim>\<open>dashboard:refreshed\<close>.
\<close>

theorem unchanged_refresh_not_saved:
  assumes fetched: "snd (snd (fetch_both e api)) = Inr (d, dd)"
    and cached: "truthy (cache_getDashboardData cs (now e) c)"
    and unchanged: "\<not> hasDataChanged cs (JObj (combine d dd)) (cache_getDashboardData cs (now e) c)"
  shows "cache_after (backgroundRefresh cs e c api) = c
         \<and> saves (effects (backgroundRefresh cs e c api)) = []
         \<and> set (dispatched (effects (backgroundRefresh cs e c api))) \<subseteq> {NetworkError}
         \<and> (truthy (get_prop ''success'' (JObj (combine d dd)))
              \<longrightarrow> saves (effects (refresh_now cs useCache e c api)) \<noteq> []
                  \<and> DashboardRefreshed (now e) 0
                        \<in> set (dispatched (effects (refresh_now cs useCache e c api))))"
proof -
  have b: "backgroundRefresh cs e c api =
             \<lparr>api_after = fst (fetch_both e api), cache_after = c,
              effects = fst (snd (fetch_both e api)), result = Inr JUndefined\<rparr>"
    using cached unchanged by (simp add: backgroundRefresh_succeeded [OF fetched])
  show ?thesis
    unfolding b
    using fetch_both_saves [of e api] fetch_both_dispatched [of e api]
          refresh_now_succeeded(2,3) [OF fetched, of cs useCache c]
    by simp
qed

text \<open>The backend returns what the cache already holds.\<close>

theorem unchanged_refresh_not_saved_witness:
  "snd (snd (fetch_both (env_of ls_session net_secondary_down) new_DashboardAPI))
     = Inr (primary_payload, JNull)
   \<and> truthy (cache_getDashboardData (mem_cache True True)
               (now (env_of ls_session net_secondary_down)) primary_payload)
   \<and> \<not> hasDataChanged (mem_cache True True) (JObj (combine primary_payload JNull))
         (cache_getDashboardData (mem_cache True True)
               (now (env_of ls_session net_secondary_down)) primary_payload)
   \<and> cache_after (backgroundRefresh (mem_cache True True) (env_of ls_session net_secondary_down)
                     primary_payload new_DashboardAPI) = primary_payload
   \<and> saves (effects (backgroundRefresh (mem_cache True True) (env_of ls_session net_secondary_down)
                        primary_payload new_DashboardAPI)) = []"
proof -
  have f: "snd (snd (fetch_both (env_of ls_session net_secondary_down) new_DashboardAPI))
             = Inr (primary_payload, JNull)"
    by (simp add: run_defs)
  have c: "truthy (cache_getDashboardData (mem_cache True True)
               (now (env_of ls_session net_secondary_down)) primary_payload)"
    by (simp add: mem_cache_def primary_payload_def)
  have u: "\<not> hasDataChanged (mem_cache True True) (JObj (combine primary_payload JNull))
         (cache_getDashboardData (mem_cache True True)
               (now (env_of ls_session net_secondary_down)) primary_payload)"
    by (simp add: mem_cache_def primary_payload_def combine_def)
  from unchanged_refresh_not_saved [OF f c u] f c u show ?thesis
    by simp
qed

text \<open>
  C6 as stated covers every successful refresh. A call of \<^verbatim>\<open>getDashboardData\<close> on an
  expired cache that fetches exactly the cached snapshot saves it again and dispatches
  \<^verbatim>\<open>dashboard:refreshed\<close>.
\<close>

theorem unchanged_foreground_counterexample:
  "\<not> hasDataChanged (mem_cache False False) primary_payload primary_payload
   \<and> result (getDashboardData (mem_cache False False) True
               (env_of ls_session net_secondary_down) primary_payload new_DashboardAPI)
       = Inr primary_payload
   \<and> saves (effects (getDashboardData (mem_cache False False) True
                        (env_of ls_session net_secondary_down) primary_payload new_DashboardAPI))
       = [primary_payload]
   \<and> dispatched (effects (getDashboardData (mem_cache False False) True
                        (env_of ls_session net_secondary_down) primary_payload new_DashboardAPI))
       = [DashboardRefreshed 1000 0]"
  by (simp add: run_defs)

section \<open>Concurrent refreshes\<close>

lemma fetchWithAuth_start_agrees:
  "fst (fetchWithAuth url opts e api) = fst (fetchWithAuth_start url opts (localStorage e) api)"
  "requests (fst (snd (fetchWithAuth url opts e api)))
     = snd (fetchWithAuth_start url opts (localStorage e) api)"
  by (cases "resolve_token url (localStorage e) api";
      simp add: fetchWithAuth_unsent fetchWithAuth_sent fetchWithAuth_start_def)+

lemma fetch_both_start_agrees:
  "requests (fst (snd (fetch_both e api))) = snd (backgroundRefresh_start (localStorage e) api)"
proof -
  obtain api1 fx1 r1 where p: "fetchWithAuth ''/dashboard/data'' no_options e api = (api1, fx1, r1)"
    by (cases "fetchWithAuth ''/dashboard/data'' no_options e api") auto
  obtain api2 fx2 r2 where
    s: "fetchWithAuth ''/portfolio/due-dates-data'' no_options e api1 = (api2, fx2, r2)"
    by (cases "fetchWithAuth ''/portfolio/due-dates-data'' no_options e api1") auto
  from fetchWithAuth_start_agrees [of "''/dashboard/data''" no_options e api] p
  have 1: "fst (fetchWithAuth_start ''/dashboard/data'' no_options (localStorage e) api) = api1"
          "snd (fetchWithAuth_start ''/dashboard/data'' no_options (localStorage e) api) = requests fx1"
    by simp_all
  from fetchWithAuth_start_agrees [of "''/portfolio/due-dates-data''" no_options e api1] s
  have 2: "snd (fetchWithAuth_start ''/portfolio/due-dates-data'' no_options (localStorage e) api1)
             = requests fx2"
    by simp
  from 1 2 show ?thesis
    by (auto simp: fetch_both_unfold [OF p s] backgroundRefresh_start_def split: prod.splits)
qed

lemma backgroundRefresh_requests:
  "requests (effects (backgroundRefresh cs e c api))
     = snd (backgroundRefresh_start (localStorage e) api)"
proof -
  have "requests (effects (backgroundRefresh cs e c api)) = requests (fst (snd (fetch_both e api)))"
    by (auto simp: backgroundRefresh_def Let_def split: prod.splits sum.splits)
  then show ?thesis by (simp add: fetch_both_start_agrees)
qed

lemma backgroundRefresh_start_with_token:
  assumes "token_set (token api)"
  shows "fst (backgroundRefresh_start ls api) = api"
    and "map req_url (snd (backgroundRefresh_start ls api))
           = [''/dashboard/data'', ''/portfolio/due-dates-data'']"
  using assms
  by (simp_all add: backgroundRefresh_start_def fetchWithAuth_start_def resolve_token_kept
        build_request_def)

lemma backgroundRefresh_start_resolves:
  assumes "\<not> token_set (token api)" and "TokenResolver_resolve ''/dashboard/data'' ls = Some t"
  shows "token_set (token (fst (backgroundRefresh_start ls api)))"
    and "map req_url (snd (backgroundRefresh_start ls api))
           = [''/dashboard/data'', ''/portfolio/due-dates-data'']"
proof -
  from assms(2) have t: "t \<noteq> []"
    by (auto simp: TokenResolver_resolve_def stored_def split: if_splits)
  from assms have r: "resolve_token ''/dashboard/data'' ls api = Inr (api\<lparr>token := Some t\<rparr>)"
    by (simp add: resolve_token_empty)
  from t have k: "resolve_token ''/portfolio/due-dates-data'' ls (api\<lparr>token := Some t\<rparr>)
                    = Inr (api\<lparr>token := Some t\<rparr>)"
    by (simp add: resolve_token_kept)
  from r k t show "token_set (token (fst (backgroundRefresh_start ls api)))"
    by (simp add: backgroundRefresh_start_def fetchWithAuth_start_def)
  from r k show "map req_url (snd (backgroundRefresh_start ls api))
           = [''/dashboard/data'', ''/portfolio/due-dates-data'']"
    by (simp add: backgroundRefresh_start_def fetchWithAuth_start_def build_request_def)
qed

lemma backgroundRefresh_calls_with_token:
  assumes "token_set (token api)"
  shows "map req_url (snd (backgroundRefresh_calls n ls api))
           = concat (replicate n [''/dashboard/data'', ''/portfolio/due-dates-data''])"
proof (induction n)
  case 0
  show ?case by simp
next
  case (Suc n)
  obtain api1 rs1 where s: "backgroundRefresh_start ls api = (api1, rs1)"
    by (cases "backgroundRefresh_start ls api") auto
  from backgroundRefresh_start_with_token [OF assms, of ls] s
  have "api1 = api" and "map req_url rs1 = [''/dashboard/data'', ''/portfolio/due-dates-data'']"
    by simp_all
  with Suc s show ?case
    by (auto split: prod.splits)
qed

lemma fetchEvents_calls_in_progress:
  assumes "fetchInProgress st"
  shows "filter is_issued (snd (fetchEvents_calls n forceRefresh cached ls st)) = []"
  using assms
  by (induction n) (auto simp: fetchEvents_start_def split: prod.splits)

lemma fetchEvents_calls_issued:
  "length (filter is_issued (snd (fetchEvents_calls n forceRefresh cached ls st))) \<le> 1"
proof (induction n arbitrary: st)
  case 0
  show ?case by simp
next
  case (Suc n)
  obtain st1 r where s: "fetchEvents_start forceRefresh cached ls st = (st1, r)"
    by (cases "fetchEvents_start forceRefresh cached ls st") auto
  show ?case
  proof (cases "is_issued r")
    case True
    with s have "fetchInProgress st1"
      by (auto simp: fetchEvents_start_def split: if_splits option.splits list.splits)
    from fetchEvents_calls_in_progress [OF this, of n forceRefresh cached ls] s True
    show ?thesis
      by (auto split: prod.splits)
  next
    case False
    with Suc [of st1] s show ?thesis
      by (auto split: prod.splits)
  qed
qed

text \<open>Once a fetch of the carousel has finished, a forced call sends a request again.\<close>

lemma fetchEvents_after_finish:
  assumes "ls ''session_token'' = Some t" and "t \<noteq> []"
  shows "is_issued (snd (fetchEvents_start True cached ls (fetchEvents_finish st)))"
  using assms by (simp add: fetchEvents_start_def fetchEvents_finish_def)

text \<open>
  C5, as amended. Background refreshes of the dashboard are not coalesced: with a
  credential at hand, each call of \<^verbatim>\<open>_backgroundRefresh\<close> sends its own primary and
  secondary request before it first waits, so \<open>n\<close> calls made in one tick send \<open>n\<close>
  refreshes; these are the requests of the completed call. Only the carousel's
  \<^verbatim>\<open>fetchEvents\<close> is guarded: a call made while its fetch is in progress returns at once,
  without a request and without a result, so the calls of one tick send at most one
  request.
\<close>

theorem background_refreshes_not_coalesced:
  "(token_set (token api) \<or> TokenResolver_resolve ''/dashboard/data'' ls \<noteq> None
      \<longrightarrow> map req_url (snd (backgroundRefresh_calls n ls api))
            = concat (replicate n [''/dashboard/data'', ''/portfolio/due-dates-data'']))
   \<and> requests (effects (backgroundRefresh cs e c api))
       = snd (backgroundRefresh_start (localStorage e) api)
   \<and> (fetchInProgress st \<longrightarrow> fetchEvents_start forceRefresh cached ls st = (st, Skipped))
   \<and> length (filter is_issued (snd (fetchEvents_calls n forceRefresh cached ls st))) \<le> 1"
proof -
  have 1: "map req_url (snd (backgroundRefresh_calls n ls api))
            = concat (replicate n [''/dashboard/data'', ''/portfolio/due-dates-data''])"
    if avail: "token_set (token api) \<or> TokenResolver_resolve ''/dashboard/data'' ls \<noteq> None"
  proof (cases "token_set (token api)")
    case True
    then show ?thesis by (rule backgroundRefresh_calls_with_token)
  next
    case False
    with avail obtain t where t: "TokenResolver_resolve ''/dashboard/data'' ls = Some t"
      by auto
    show ?thesis
    proof (cases n)
      case 0
      then show ?thesis by simp
    next
      case (Suc m)
      obtain api1 rs1 where s: "backgroundRefresh_start ls api = (api1, rs1)"
        by (cases "backgroundRefresh_start ls api") auto
      from backgroundRefresh_start_resolves [OF False t] s
      have a: "token_set (token api1)"
        and r: "map req_url rs1 = [''/dashboard/data'', ''/portfolio/due-dates-data'']"
        by simp_all
      from backgroundRefresh_calls_with_token [OF a, of m ls] r s Suc show ?thesis
        by (auto split: prod.splits)
    qed
  qed
  have 3: "fetchEvents_start forceRefresh cached ls st = (st, Skipped)" if "fetchInProgress st"
    using that by (simp add: fetchEvents_start_def)
  from 1 3 backgroundRefresh_requests [of cs e c api]
       fetchEvents_calls_issued [of n forceRefresh cached ls st]
  show ?thesis by blast
qed

text \<open>Three calls in one tick from a fresh service with a stored session credential.\<close>

theorem background_refreshes_not_coalesced_witness:
  "TokenResolver_resolve ''/dashboard/data'' ls_session \<noteq> None
   \<and> map req_url (snd (backgroundRefresh_calls 3 ls_session new_DashboardAPI))
       = [''/dashboard/data'', ''/portfolio/due-dates-data'',
          ''/dashboard/data'', ''/portfolio/due-dates-data'',
          ''/dashboard/data'', ''/portfolio/due-dates-data'']
   \<and> fetchInProgress \<lparr>fetchInProgress = True\<rparr>
   \<and> fetchEvents_start True None ls_session \<lparr>fetchInProgress = True\<rparr>
       = (\<lparr>fetchInProgress = True\<rparr>, Skipped)"
proof -
  have a: "TokenResolver_resolve ''/dashboard/data'' ls_session \<noteq> None"
    by (simp add: TokenResolver_resolve_def stored_def ls_session_def)
  have r: "concat (replicate 3 [''/dashboard/data'', ''/portfolio/due-dates-data''])
             = [''/dashboard/data'', ''/portfolio/due-dates-data'',
                ''/dashboard/data'', ''/portfolio/due-dates-data'',
                ''/dashboard/data'', ''/portfolio/due-dates-data'']"
    by (simp add: numeral_3_eq_3)
  from background_refreshes_not_coalesced [where api = new_DashboardAPI and ls = ls_session
         and n = 3 and st = "\<lparr>fetchInProgress = True\<rparr>" and forceRefresh = True
         and cached = None and cs = "mem_cache True True" and e = "env_of ls_session net_ok"
         and c = JNull] a r
  show ?thesis by simp
qed

text \<open>
  C5 as stated allows one network refresh for concurrent callers. Two calls of
  \<^verbatim>\<open>_backgroundRefresh\<close> in one tick send the primary request twice.
\<close>

theorem single_flight_counterexample:
  "map req_url (snd (backgroundRefresh_calls 2 ls_session new_DashboardAPI))
     = [''/dashboard/data'', ''/portfolio/due-dates-data'',
        ''/dashboard/data'', ''/portfolio/due-dates-data'']"
  by (simp add: numeral_2_eq_2 backgroundRefresh_start_def fetchWithAuth_start_def
        resolve_token_def adopt_def Let_def new_DashboardAPI_def ls_session_def build_request_def)

section \<open>Racing cache writes\<close>





end
